theory Spec2Isabelle
  imports Complex_Main "HOL-Library.AList" "HOL-Library.Char_ord" "HOL-Library.List_Lexorder"
begin

section \<open>Python values and the operations app.py applies to them\<close>

text \<open>
  The values \<open>json.load\<close> hands to app.py. A Python \<open>dict\<close> is the list of its items in
  insertion order (its keys are distinct). Python's \<open>int\<close> and \<open>float\<close> are both \<open>JNum\<close>:
  a float is idealised as an exact real number, so there is no rounding error, no
  \<open>nan\<close>, no \<open>inf\<close> and no \<open>OverflowError\<close>. Characters are ASCII.
\<close>

datatype json =
    JNull
  | JBool bool
  | JNum real
  | JStr string
  | JArr "json list"
  | JObj "(string \<times> json) list"

text \<open>The exceptions the modelled code can raise.\<close>

datatype py_error = KeyError | TypeError | ValueError | AttributeError | DecodeError

definition bindE :: "'e + 'a \<Rightarrow> ('a \<Rightarrow> 'e + 'b) \<Rightarrow> 'e + 'b" where
  "bindE m f = (case m of Inl e \<Rightarrow> Inl e | Inr x \<Rightarrow> f x)"

text \<open>A \<open>for\<close> loop over a list whose body may raise: the first exception ends the loop.\<close>

fun foldE :: "('a \<Rightarrow> 's \<Rightarrow> 'e + 's) \<Rightarrow> 'a list \<Rightarrow> 's \<Rightarrow> 'e + 's" where
  "foldE f [] s = Inr s"
| "foldE f (x # xs) s = bindE (f x s) (foldE f xs)"

text \<open>Truthiness, as \<open>not x\<close> and \<open>x or y\<close> test it.\<close>

fun truthy :: "json \<Rightarrow> bool" where
  "truthy JNull = False"
| "truthy (JBool b) = b"
| "truthy (JNum x) = (x \<noteq> 0)"
| "truthy (JStr s) = (s \<noteq> [])"
| "truthy (JArr xs) = (xs \<noteq> [])"
| "truthy (JObj kv) = (kv \<noteq> [])"

definition py_or :: "json \<Rightarrow> json \<Rightarrow> json" where
  "py_or a b = (if truthy a then a else b)"

text \<open>
  Python's \<open>==\<close> on loaded values: \<open>True == 1\<close>, \<open>False == 0\<close>, lists compare
  elementwise and dicts compare as mappings, whatever the order of their items.
  \<open>canon\<close> maps equal values to one representative.
\<close>

primrec canon :: "json \<Rightarrow> json" where
  "canon JNull = JNull"
| "canon (JBool b) = JNum (if b then 1 else 0)"
| "canon (JNum x) = JNum x"
| "canon (JStr s) = JStr s"
| "canon (JArr xs) = JArr (map canon xs)"
| "canon (JObj kv) = JObj (sort_key fst (map (map_prod id canon) kv))"

definition py_eq :: "json \<Rightarrow> json \<Rightarrow> bool" where
  "py_eq a b = (canon a = canon b)"

text \<open>\<open>d[k]\<close>: only a dict can be subscripted by a string; a missing key raises.\<close>

fun py_subscript :: "json \<Rightarrow> string \<Rightarrow> py_error + json" where
  "py_subscript (JObj kv) k = (case map_of kv k of None \<Rightarrow> Inl KeyError | Some v \<Rightarrow> Inr v)"
| "py_subscript _ k = Inl TypeError"

text \<open>\<open>d.get(k, default)\<close>: only a dict has the method \<open>get\<close>.\<close>

fun py_get_default :: "json \<Rightarrow> string \<Rightarrow> json \<Rightarrow> py_error + json" where
  "py_get_default (JObj kv) k d = (case map_of kv k of None \<Rightarrow> Inr d | Some v \<Rightarrow> Inr v)"
| "py_get_default _ k d = Inl AttributeError"

definition py_get :: "json \<Rightarrow> string \<Rightarrow> py_error + json" where
  "py_get x k = py_get_default x k JNull"

text \<open>\<open>d.values()\<close>.\<close>

fun py_values :: "json \<Rightarrow> py_error + json list" where
  "py_values (JObj kv) = Inr (map snd kv)"
| "py_values _ = Inl AttributeError"

text \<open>
  What \<open>for x in v\<close> iterates over: the elements of a list, the keys of a dict, the
  one-character strings of a string; anything else is not iterable.
\<close>

fun py_iter :: "json \<Rightarrow> py_error + json list" where
  "py_iter (JArr xs) = Inr xs"
| "py_iter (JObj kv) = Inr (map (\<lambda>p. JStr (fst p)) kv)"
| "py_iter (JStr s) = Inr (map (\<lambda>c. JStr [c]) s)"
| "py_iter _ = Inl TypeError"

text \<open>
  \<open>float(v)\<close>. On a string it is the library's parser, which is not part of the
  repository: \<open>fs\<close> stands for it, \<open>None\<close> being its \<open>ValueError\<close>.
\<close>

fun py_float :: "(string \<Rightarrow> real option) \<Rightarrow> json \<Rightarrow> py_error + real" where
  "py_float fs (JNum x) = Inr x"
| "py_float fs (JBool b) = Inr (if b then 1 else 0)"
| "py_float fs (JStr s) = (case fs s of None \<Rightarrow> Inl ValueError | Some x \<Rightarrow> Inr x)"
| "py_float fs _ = Inl TypeError"

text \<open>\<open>hash(v)\<close>, as a dict lookup or insertion calls it: lists and dicts are unhashable.\<close>

fun py_hashable :: "json \<Rightarrow> bool" where
  "py_hashable (JArr xs) = False"
| "py_hashable (JObj kv) = False"
| "py_hashable _ = True"

text \<open>\<open>str.lower\<close> and \<open>str.strip\<close> on ASCII.\<close>

definition lower_char :: "char \<Rightarrow> char" where
  "lower_char c =
     (case map_of (zip ''ABCDEFGHIJKLMNOPQRSTUVWXYZ'' ''abcdefghijklmnopqrstuvwxyz'') c of
        None \<Rightarrow> c | Some d \<Rightarrow> d)"

definition str_lower :: "string \<Rightarrow> string" where
  "str_lower s = map lower_char s"

definition is_space :: "char \<Rightarrow> bool" where
  "is_space c = (of_char c \<in> set [9, 10, 11, 12, 13, 28, 29, 30, 31, 32 :: nat])"

definition str_strip :: "string \<Rightarrow> string" where
  "str_strip s = rev (dropWhile is_space (rev (dropWhile is_space s)))"

text \<open>\<open>v.lower()\<close>: only a string has the method.\<close>

fun py_lower :: "json \<Rightarrow> py_error + string" where
  "py_lower (JStr s) = Inr (str_lower s)"
| "py_lower _ = Inl AttributeError"

text \<open>\<open>needle in v\<close> for a string needle (\<open>"users" not in data\<close>).\<close>

fun str_contains :: "string \<Rightarrow> string \<Rightarrow> bool" where
  "str_contains p [] = (p = [])"
| "str_contains p (c # cs) = (take (length p) (c # cs) = p \<or> str_contains p cs)"

fun py_contains :: "string \<Rightarrow> json \<Rightarrow> py_error + bool" where
  "py_contains k (JObj kv) = Inr (k \<in> fst ` set kv)"
| "py_contains k (JArr xs) = Inr (\<exists>x\<in>set xs. py_eq x (JStr k))"
| "py_contains k (JStr s) = Inr (str_contains k s)"
| "py_contains k _ = Inl TypeError"

section \<open>The persisted files\<close>

text \<open>
  What \<open>os.path.exists\<close>, \<open>open\<close> and \<open>json.load\<close> find: no file, a file that cannot
  be read as JSON (they raise), or the loaded value.
\<close>

datatype stored = Absent | Unreadable | Content json

text \<open>\<open>load_users\<close> (lines 22-32).\<close>

definition load_users :: "stored \<Rightarrow> json" where
  "load_users f =
     (case f of
        Absent \<Rightarrow> JObj [(''users'', JArr [])]
      | Unreadable \<Rightarrow> JObj [(''users'', JArr [])]
      | Content data \<Rightarrow>
          (case py_contains ''users'' data of
             Inl e \<Rightarrow> JObj [(''users'', JArr [])]
           | Inr b \<Rightarrow> if \<not> b then JObj [(''users'', JArr [])] else data))"

text \<open>\<open>load_emissions\<close> (lines 79-87).\<close>

definition load_emissions :: "stored \<Rightarrow> json" where
  "load_emissions f =
     (case f of
        Absent \<Rightarrow> JObj [(''emissions'', JArr [])]
      | Unreadable \<Rightarrow> JObj [(''emissions'', JArr [])]
      | Content data \<Rightarrow> data)"


section \<open>The user emission aggregator\<close>

text \<open>The normalisation into kilograms of lines 129-134, on the lower-cased unit.\<close>

definition amount_kg :: "real \<Rightarrow> string \<Rightarrow> real" where
  "amount_kg amount unit =
     (if unit \<in> set [''tonne'', ''tonnes'', ''t''] then amount * 1000
      else if unit \<in> set [''g'', ''gram'', ''grams''] then amount / 1000
      else amount)"

text \<open>Lines 125-134 for one record \<open>e\<close>: read the amount and the unit, normalise.\<close>

definition record_amount_kg :: "(string \<Rightarrow> real option) \<Rightarrow> json \<Rightarrow> py_error + real" where
  "record_amount_kg fs e =
     bindE (py_get_default e ''amount'' (JNum 0)) (\<lambda>a.
     bindE (py_float fs a) (\<lambda>amount.
     bindE (py_get e ''unit'') (\<lambda>u.
     bindE (py_lower (py_or u (JStr ''''))) (\<lambda>unit.
     Inr (amount_kg amount unit)))))"

text \<open>
  The totals dict, with its three keys in insertion order. \<open>etype not in totals\<close> hashes
  \<open>etype\<close> first; only a string can equal one of the keys.
\<close>

type_synonym totals = "(string \<times> real) list"

definition totals0 :: totals where
  "totals0 = [(''co2'', 0), (''no2'', 0), (''ch4'', 0)]"

fun totals_has :: "json \<Rightarrow> totals \<Rightarrow> py_error + bool" where
  "totals_has (JStr s) t = Inr (s \<in> fst ` set t)"
| "totals_has (JArr xs) t = Inl TypeError"
| "totals_has (JObj kv) t = Inl TypeError"
| "totals_has _ t = Inr False"

text \<open>\<open>totals[etype] += amount_kg\<close>, for an \<open>etype\<close> that is a key.\<close>

fun totals_add :: "json \<Rightarrow> real \<Rightarrow> totals \<Rightarrow> totals" where
  "totals_add (JStr s) x t = AList.map_entry s (\<lambda>v. v + x) t"
| "totals_add _ x t = t"

text \<open>The body of the loop of \<open>compute_totals_for_user\<close> (lines 118-136).\<close>

definition totals_step ::
  "(string \<Rightarrow> real option) \<Rightarrow> json \<Rightarrow> json \<Rightarrow> totals \<Rightarrow> py_error + totals" where
  "totals_step fs user_id e t =
     bindE (py_subscript e ''user_id'') (\<lambda>eu.
       if \<not> py_eq eu user_id then Inr t
       else
         bindE (py_get e ''type'') (\<lambda>etype.
         bindE (totals_has etype t) (\<lambda>known.
           if \<not> known then Inr t
           else bindE (record_amount_kg fs e) (\<lambda>kg. Inr (totals_add etype kg t)))))"

text \<open>\<open>compute_totals_for_user\<close> (lines 113-138), on the emissions file it loads.\<close>

definition compute_totals_for_user ::
  "(string \<Rightarrow> real option) \<Rightarrow> stored \<Rightarrow> json \<Rightarrow> py_error + totals" where
  "compute_totals_for_user fs ef user_id =
     bindE (py_subscript (load_emissions ef) ''emissions'') (\<lambda>em.
     bindE (py_iter em) (\<lambda>es.
     foldE (totals_step fs user_id) es totals0))"

section \<open>Leaderboard entries\<close>

text \<open>
  A leaderboard entry (the dict of lines 201-207, 236-242 and 283-289). The name is
  whatever value the data holds. The icon is the medal emoji, here its UTF-8 bytes.
\<close>

record entry =
  name :: json
  emissions_kg :: real
  reduction_pct :: real
  subsidy_pct :: real
  icon :: string

definition medal :: string where
  "medal = [CHR 0xF0, CHR 0x9F, CHR 0x8F, CHR 0x85]"

text \<open>
  \<open>round(x, ndigits)\<close> on the idealised float: to the nearest multiple of
  \<open>10 ^ -ndigits\<close>, a tie going to the even one.
\<close>

definition round_half_even :: "real \<Rightarrow> int" where
  "round_half_even x =
     (let f = \<lfloor>x\<rfloor>; d = x - of_int f
      in if d < 1 / 2 then f else if 1 / 2 < d then f + 1 else if even f then f else f + 1)"

definition py_round :: "real \<Rightarrow> nat \<Rightarrow> real" where
  "py_round x ndigits = of_int (round_half_even (x * 10 ^ ndigits)) / 10 ^ ndigits"

section \<open>The dataset leaderboard builder\<close>

text \<open>
  \<open>for item in _iter_items(data): body\<close> (lines 152-157). The generator is lazy, so the
  body runs on an item before the next lever is looked at: the loop is a fold of the
  body through the three levels, and the first exception of either ends it.
\<close>

definition iter_items ::
  "(json \<Rightarrow> 's \<Rightarrow> py_error + 's) \<Rightarrow> json \<Rightarrow> 's \<Rightarrow> py_error + 's" where
  "iter_items body data s =
     bindE (py_get_default data ''levers'' (JObj [])) (\<lambda>lv.
     bindE (py_values lv) (\<lambda>levers.
     foldE (\<lambda>lever s1.
       bindE (py_get_default lever ''sub_levers'' (JObj [])) (\<lambda>sl.
       bindE (py_values sl) (\<lambda>subs.
       foldE (\<lambda>sub s2.
         bindE (py_get_default sub ''items'' (JObj [])) (\<lambda>it.
         bindE (py_values it) (\<lambda>items.
         foldE body items s2))) subs s1))) levers s))"

text \<open>
  The numbers read from one item (lines 185-190 and again 213-217): tonnes, current
  cost, alternative cost.
\<close>

definition item_numbers ::
  "(string \<Rightarrow> real option) \<Rightarrow> json \<Rightarrow> py_error + real \<times> real \<times> real" where
  "item_numbers fs item =
     bindE (py_get_default item ''carbon'' (JObj [])) (\<lambda>carbon.
     bindE (py_get_default item ''costing'' (JObj [])) (\<lambda>costing.
     bindE (py_get_default carbon ''annual_co2e_tonnes'' (JNum 0)) (\<lambda>t.
     bindE (py_float fs t) (\<lambda>tonnes.
     bindE (py_get_default costing ''annual_cost_rupees'' (JNum 0)) (\<lambda>c.
     bindE (py_float fs c) (\<lambda>cost_cur.
     bindE (py_get_default costing ''annual_alternative_cost_rupees'' (JNum 0)) (\<lambda>a.
     bindE (py_float fs a) (\<lambda>cost_alt.
     Inr (tonnes, cost_cur, cost_alt)))))))))"

text \<open>The body of the hospital loop (lines 184-190).\<close>

definition hospital_step ::
  "(string \<Rightarrow> real option) \<Rightarrow> json \<Rightarrow> real \<times> real \<times> real \<Rightarrow> py_error + real \<times> real \<times> real" where
  "hospital_step fs item acc =
     (case acc of (total_tonnes, total_cost_current, total_cost_alt) \<Rightarrow>
        bindE (item_numbers fs item) (\<lambda>(tonnes, cost_cur, cost_alt).
        Inr (total_tonnes + tonnes, total_cost_current + cost_cur, total_cost_alt + cost_alt)))"

text \<open>The cost-based reduction (lines 193-196 and 230-233) and the subsidy (lines 199 and 234).\<close>

definition cost_reduction_pct :: "real \<Rightarrow> real \<Rightarrow> real" where
  "cost_reduction_pct cost_cur cost_alt =
     (if 0 < cost_cur then (cost_cur - cost_alt) / cost_cur * 100 else 0)"

definition cost_subsidy_pct :: "real \<Rightarrow> real" where
  "cost_subsidy_pct red_pct = max 0 (min 40 (py_round red_pct 1))"

text \<open>
  The accumulator dict \<open>manufacturers\<close>, in insertion order; its keys are the supplier
  values, compared as Python compares dict keys.
\<close>

record agg =
  tonnes :: real
  cost_cur :: real
  cost_alt :: real

text \<open>\<open>setdefault\<close> and the three \<open>+=\<close> of lines 220-226, for a hashable supplier.\<close>

fun manufacturers_add ::
  "json \<Rightarrow> real \<times> real \<times> real \<Rightarrow> (json \<times> agg) list \<Rightarrow> (json \<times> agg) list" where
  "manufacturers_add k (t, c, a) [] =
     [(k, \<lparr>tonnes = 0 + t, cost_cur = 0 + c, cost_alt = 0 + a\<rparr>)]"
| "manufacturers_add k (t, c, a) ((k', m) # ms) =
     (if py_eq k' k
      then (k', \<lparr>tonnes = tonnes m + t, cost_cur = cost_cur m + c, cost_alt = cost_alt m + a\<rparr>) # ms
      else (k', m) # manufacturers_add k (t, c, a) ms)"

definition supplier_step ::
  "real \<times> real \<times> real \<Rightarrow> json \<Rightarrow> (json \<times> agg) list \<Rightarrow> py_error + (json \<times> agg) list" where
  "supplier_step nums supplier ms =
     (if \<not> py_hashable supplier then Inl TypeError else Inr (manufacturers_add supplier nums ms))"

text \<open>The body of the manufacturer loop (lines 212-226).\<close>

definition manufacturer_step ::
  "(string \<Rightarrow> real option) \<Rightarrow> json \<Rightarrow> (json \<times> agg) list \<Rightarrow> py_error + (json \<times> agg) list" where
  "manufacturer_step fs item ms =
     bindE (item_numbers fs item) (\<lambda>nums.
     bindE (py_get_default item ''sourcing'' (JObj [])) (\<lambda>sourcing.
     bindE (py_get_default sourcing ''suppliers'' (JArr [])) (\<lambda>sup.
     bindE (py_iter sup) (\<lambda>suppliers.
     foldE (supplier_step nums) suppliers ms))))"

text \<open>One manufacturer entry (lines 229-242).\<close>

definition manufacturer_entry :: "json \<times> agg \<Rightarrow> entry" where
  "manufacturer_entry p =
     (case p of (nm, m) \<Rightarrow>
        let red_pct = cost_reduction_pct (cost_cur m) (cost_alt m)
        in \<lparr>name = nm, emissions_kg = tonnes m * 1000, reduction_pct = red_pct,
            subsidy_pct = cost_subsidy_pct red_pct, icon = medal\<rparr>)"

text \<open>The hospital entry (lines 193-207).\<close>

definition hospital_entry :: "json \<Rightarrow> real \<times> real \<times> real \<Rightarrow> entry" where
  "hospital_entry hospital_name acc =
     (case acc of (total_tonnes, total_cost_current, total_cost_alt) \<Rightarrow>
        let reduction = cost_reduction_pct total_cost_current total_cost_alt
        in \<lparr>name = hospital_name, emissions_kg = total_tonnes * 1000, reduction_pct = reduction,
            subsidy_pct = cost_subsidy_pct reduction, icon = medal\<rparr>)"

text \<open>
  \<open>build_leaderboards_from_data\<close> (lines 160-248). \<open>list.sort\<close> is stable, as
  \<open>sort_key\<close> is.
\<close>

definition build_leaderboards_from_data ::
  "(string \<Rightarrow> real option) \<Rightarrow> json \<Rightarrow> py_error + entry list \<times> entry list" where
  "build_leaderboards_from_data fs data =
     (if \<not> truthy data then Inr ([], [])
      else
        bindE (py_get_default data ''hospital_profile'' (JObj [])) (\<lambda>profile.
        bindE (py_get_default profile ''name'' (JStr ''Unknown Hospital'')) (\<lambda>hospital_name.
        bindE (iter_items (hospital_step fs) data (0, 0, 0)) (\<lambda>acc.
        let leaders_hospitals = [hospital_entry hospital_name acc] in
        bindE (iter_items (manufacturer_step fs) data []) (\<lambda>manufacturers.
        let leaders_manufacturers = map manufacturer_entry manufacturers in
        Inr (sort_key emissions_kg leaders_hospitals,
             sort_key emissions_kg leaders_manufacturers))))))"

section \<open>The logged-emissions leaderboard builder\<close>

text \<open>\<open>totals.get(k, 0.0)\<close> on the totals dict.\<close>

definition totals_get :: "totals \<Rightarrow> string \<Rightarrow> real" where
  "totals_get t k = (case map_of t k of None \<Rightarrow> 0 | Some v \<Rightarrow> v)"

text \<open>
  The body of the loop over the users (lines 270-294), on the two lists built so far.
\<close>

definition user_step ::
  "(string \<Rightarrow> real option) \<Rightarrow> stored \<Rightarrow> json \<Rightarrow> entry list \<times> entry list
     \<Rightarrow> py_error + entry list \<times> entry list" where
  "user_step fs ef u acc =
     (case acc of (hospital_entries, manufacturer_entries) \<Rightarrow>
        bindE (py_get u ''user_type'') (\<lambda>ut.
        bindE (py_lower (py_or ut (JStr ''''))) (\<lambda>lowered.
        let raw_type = str_strip lowered in
        bindE (py_subscript u ''id'') (\<lambda>uid.
        bindE (compute_totals_for_user fs ef uid) (\<lambda>t.
        let total_kg = totals_get t ''co2'' + totals_get t ''no2'' + totals_get t ''ch4'' in
        if total_kg \<le> 0 then Inr (hospital_entries, manufacturer_entries)
        else
          let raw_type = (if raw_type \<notin> set [''hospital'', ''manufacturer'']
                          then ''hospital'' else raw_type) in
          bindE (py_get u ''name'') (\<lambda>nm.
          bindE (py_get u ''email'') (\<lambda>em.
          let e = \<lparr>name = py_or nm em, emissions_kg = total_kg, reduction_pct = 0,
                   subsidy_pct = 0, icon = medal\<rparr> in
          if raw_type = ''hospital'' then Inr (hospital_entries @ [e], manufacturer_entries)
          else if raw_type = ''manufacturer'' then Inr (hospital_entries, manufacturer_entries @ [e])
          else Inr (hospital_entries, manufacturer_entries))))))))"

text \<open>
  \<open>finalize_group\<close> (lines 296-312). \<open>max\<close> keeps the first element and replaces it
  by each later one that is greater.
\<close>

definition relative_entry :: "real \<Rightarrow> entry \<Rightarrow> entry" where
  "relative_entry max_kg e =
     (let rel = (max_kg - emissions_kg e) / max_kg * 100
      in e\<lparr>reduction_pct := rel, subsidy_pct := py_round (max 0 (min 40 rel)) 1\<rparr>)"

fun finalize_group :: "entry list \<Rightarrow> entry list" where
  "finalize_group [] = []"
| "finalize_group (e # es) =
     (let max_kg = fold (\<lambda>x m. if m < x then x else m) (map emissions_kg es) (emissions_kg e)
      in if max_kg \<le> 0 then e # es
         else sort_key emissions_kg (map (relative_entry max_kg) (e # es)))"

text \<open>\<open>build_leaderboards_from_emissions\<close> (lines 254-317), on the two files it loads.\<close>

definition build_leaderboards_from_emissions ::
  "(string \<Rightarrow> real option) \<Rightarrow> stored \<Rightarrow> stored \<Rightarrow> py_error + entry list \<times> entry list" where
  "build_leaderboards_from_emissions fs uf ef =
     bindE (py_get_default (load_users uf) ''users'' (JArr [])) (\<lambda>all.
     bindE (py_iter all) (\<lambda>all_users.
     bindE (foldE (user_step fs ef) all_users ([], [])) (\<lambda>(hospital_entries, manufacturer_entries).
     Inr (finalize_group hospital_entries, finalize_group manufacturer_entries))))"

section \<open>The stores as the application writes them\<close>

text \<open>The record \<open>add_emission\<close> appends (lines 101-108) and the store holding a list of them.\<close>

record emission_record =
  er_id :: int
  er_user_id :: int
  er_type :: string
  er_amount :: real
  er_unit :: string
  er_created_at :: string

definition emission_json :: "emission_record \<Rightarrow> json" where
  "emission_json r =
     JObj [(''id'', JNum (of_int (er_id r))),
           (''user_id'', JNum (of_int (er_user_id r))),
           (''type'', JStr (er_type r)),
           (''amount'', JNum (er_amount r)),
           (''unit'', JStr (er_unit r)),
           (''created_at'', JStr (er_created_at r))]"

definition emissions_store :: "emission_record list \<Rightarrow> stored" where
  "emissions_store rs = Content (JObj [(''emissions'', JArr (map emission_json rs))])"

text \<open>The user \<open>add_user\<close> appends (lines 46-53) and the store holding a list of them.\<close>

record user_record =
  ur_id :: int
  ur_email :: string
  ur_password_hash :: string
  ur_name :: string
  ur_user_type :: string
  ur_created_at :: string

definition user_json :: "user_record \<Rightarrow> json" where
  "user_json u =
     JObj [(''id'', JNum (of_int (ur_id u))),
           (''email'', JStr (ur_email u)),
           (''password_hash'', JStr (ur_password_hash u)),
           (''name'', JStr (ur_name u)),
           (''user_type'', JStr (ur_user_type u)),
           (''created_at'', JStr (ur_created_at u))]"

definition users_store :: "user_record list \<Rightarrow> stored" where
  "users_store us = Content (JObj [(''users'', JArr (map user_json us))])"

section \<open>The specification's words\<close>

text \<open>
  The Unit Normalizer of the specification: case-insensitively, tonnes are multiplied by
  1000, grams divided by 1000, anything else is left as it is.
\<close>

definition normalize :: "real \<Rightarrow> string \<Rightarrow> real" where
  "normalize amount unit =
     (if str_lower unit \<in> {''tonne'', ''tonnes'', ''t''} then amount * 1000
      else if str_lower unit \<in> {''g'', ''gram'', ''grams''} then amount / 1000
      else amount)"

text \<open>
  The User Emission Aggregator of the specification: the bucket of a gas sums the
  normalized amounts of the user's records of that gas; the totals have the three buckets.
\<close>

definition bucket :: "int \<Rightarrow> string \<Rightarrow> emission_record list \<Rightarrow> real" where
  "bucket uid gas rs =
     sum_list (map (\<lambda>r. normalize (er_amount r) (er_unit r))
                   (filter (\<lambda>r. er_user_id r = uid \<and> er_type r = gas) rs))"

definition user_totals :: "int \<Rightarrow> emission_record list \<Rightarrow> totals" where
  "user_totals uid rs =
     [(''co2'', bucket uid ''co2'' rs), (''no2'', bucket uid ''no2'' rs),
      (''ch4'', bucket uid ''ch4'' rs)]"

text \<open>The clamp of the specification.\<close>

definition clamp :: "real \<Rightarrow> real \<Rightarrow> real \<Rightarrow> real" where
  "clamp x lo hi = (if x < lo then lo else if hi < x then hi else x)"

text \<open>
  The logged-emissions builder of the specification on the stores the application writes:
  a user's total, group and displayed name, the entry before the relative scores, and
  the group of the users with a positive total.
\<close>

definition total_kg :: "int \<Rightarrow> emission_record list \<Rightarrow> real" where
  "total_kg uid rs = bucket uid ''co2'' rs + bucket uid ''no2'' rs + bucket uid ''ch4'' rs"

definition is_manufacturer :: "user_record \<Rightarrow> bool" where
  "is_manufacturer u = (str_strip (str_lower (ur_user_type u)) = ''manufacturer'')"

definition display_name :: "user_record \<Rightarrow> json" where
  "display_name u = (if ur_name u \<noteq> '''' then JStr (ur_name u) else JStr (ur_email u))"

definition logged_entry :: "emission_record list \<Rightarrow> user_record \<Rightarrow> entry" where
  "logged_entry rs u =
     \<lparr>name = display_name u, emissions_kg = total_kg (ur_id u) rs, reduction_pct = 0,
      subsidy_pct = 0, icon = medal\<rparr>"

definition logged_group :: "bool \<Rightarrow> user_record list \<Rightarrow> emission_record list \<Rightarrow> entry list" where
  "logged_group manu us rs =
     map (logged_entry rs)
         (filter (\<lambda>u. 0 < total_kg (ur_id u) rs \<and> is_manufacturer u = manu) us)"






section \<open>Example stores\<close>

definition example_item :: "real \<Rightarrow> real \<Rightarrow> real \<Rightarrow> string list \<Rightarrow> json" where
  "example_item t c a sups =
     JObj [(''carbon'', JObj [(''annual_co2e_tonnes'', JNum t)]),
           (''costing'', JObj [(''annual_cost_rupees'', JNum c),
                               (''annual_alternative_cost_rupees'', JNum a)]),
           (''sourcing'', JObj [(''suppliers'', JArr (map JStr sups))])]"

definition example_dataset :: json where
  "example_dataset =
     JObj [(''hospital_profile'', JObj [(''name'', JStr ''City Hospital'')]),
           (''levers'', JObj [(''energy'', JObj [(''sub_levers'', JObj [(''lighting'',
              JObj [(''items'', JObj [(''led'', example_item 3 1000 800 [''Acme'', ''Bolt'']),
                                     (''hvac'', example_item 1 1000 800 [''Acme''])])])])])])]"

definition example_user :: "int \<Rightarrow> string \<Rightarrow> string \<Rightarrow> string \<Rightarrow> user_record" where
  "example_user i nm em ty =
     \<lparr>ur_id = i, ur_email = em, ur_password_hash = ''pbkdf2'', ur_name = nm,
      ur_user_type = ty, ur_created_at = ''2024-01-01T00:00:00''\<rparr>"

definition example_emission :: "int \<Rightarrow> int \<Rightarrow> string \<Rightarrow> real \<Rightarrow> string \<Rightarrow> emission_record" where
  "example_emission i uid ty a un =
     \<lparr>er_id = i, er_user_id = uid, er_type = ty, er_amount = a, er_unit = un,
      er_created_at = ''2024-01-01T00:00:00''\<rparr>"

definition example_users :: "user_record list" where
  "example_users =
     [example_user 1 ''Alpha'' ''a@x.org'' ''hospital'',
      example_user 2 '''' ''b@x.org'' ''Hospital '',
      example_user 3 ''Gamma'' ''c@x.org'' ''manufacturer'',
      example_user 4 ''Delta'' ''d@x.org'' ''pending'']"

definition example_emissions :: "emission_record list" where
  "example_emissions =
     [example_emission 1 2 ''co2'' 200 ''kg'',
      example_emission 2 1 ''co2'' 100 ''kg'',
      example_emission 3 3 ''ch4'' 3 ''t'']"

definition example_entry :: "string \<Rightarrow> real \<Rightarrow> real \<Rightarrow> real \<Rightarrow> entry" where
  "example_entry nm kg red sub =
     \<lparr>name = JStr nm, emissions_kg = kg, reduction_pct = red, subsidy_pct = sub, icon = medal\<rparr>"

section \<open>The shape of the reference dataset\<close>



definition opt_field :: "(json \<Rightarrow> bool) \<Rightarrow> string \<Rightarrow> json \<Rightarrow> bool" where
  "opt_field P k d =
     (case d of JObj kv \<Rightarrow> (case map_of kv k of None \<Rightarrow> True | Some v \<Rightarrow> P v) | _ \<Rightarrow> False)"

definition dict_of :: "(json \<Rightarrow> bool) \<Rightarrow> json \<Rightarrow> bool" where
  "dict_of P d = (case d of JObj kv \<Rightarrow> list_all (\<lambda>p. P (snd p)) kv | _ \<Rightarrow> False)"



section \<open>Further example datasets\<close>


section \<open>Properties\<close>

lemma bindE_Inl [simp]: "bindE (Inl e) f = Inl e"
  by (simp add: bindE_def)

lemma bindE_Inr [simp]: "bindE (Inr x) f = f x"
  by (simp add: bindE_def)

lemma bindE_eq_Inr: "bindE m f = Inr y \<longleftrightarrow> (\<exists>x. m = Inr x \<and> f x = Inr y)"
  by (cases m) simp_all

subsection \<open>Reading one stored record\<close>

lemma py_eq_num [simp]: "py_eq (JNum x) (JNum y) = (x = y)"
  by (simp add: py_eq_def)

lemma py_lower_unit [simp]: "py_lower (py_or (JStr u) (JStr [])) = Inr (str_lower u)"
  by (cases u) (simp_all add: py_or_def str_lower_def)

lemma record_amount_kg_json:
  "record_amount_kg fs (emission_json r) = Inr (normalize (er_amount r) (er_unit r))"
  by (simp add: record_amount_kg_def emission_json_def py_get_def normalize_def amount_kg_def)

lemma str_lower_simps [simp]:
  "str_lower [] = []"
  "str_lower (c # cs) = lower_char c # str_lower cs"
  by (simp_all add: str_lower_def)

text \<open>
  C2. The unit normalization applied to a stored record: case-insensitively, a unit in
  tonne, tonnes, t multiplies the amount by 1000, a unit in g, gram, grams divides it by
  1000, any other unit (kg, the empty string) leaves it unchanged, and no unit raises.
  With the five values of the specification.
\<close>

theorem unit_normalization:
  "record_amount_kg fs (emission_json r) =
     Inr (if str_lower (er_unit r) \<in> {''tonne'', ''tonnes'', ''t''} then er_amount r * 1000
          else if str_lower (er_unit r) \<in> {''g'', ''gram'', ''grams''} then er_amount r / 1000
          else er_amount r)
   \<and> record_amount_kg fs (emission_json (r\<lparr>er_amount := 1, er_unit := ''t''\<rparr>)) = Inr 1000
   \<and> record_amount_kg fs (emission_json (r\<lparr>er_amount := 1000, er_unit := ''g''\<rparr>)) = Inr 1
   \<and> record_amount_kg fs (emission_json (r\<lparr>er_amount := 5, er_unit := ''kg''\<rparr>)) = Inr 5
   \<and> record_amount_kg fs (emission_json (r\<lparr>er_amount := 5, er_unit := ''''\<rparr>)) = Inr 5
   \<and> record_amount_kg fs (emission_json (r\<lparr>er_amount := 5, er_unit := ''TONNES''\<rparr>)) = Inr 5000"
  by (simp add: record_amount_kg_json normalize_def lower_char_def)

subsection \<open>The totals of a user\<close>

lemma totals_step_json:
  "totals_step fs (JNum (of_int uid)) (emission_json r) [(''co2'', a), (''no2'', b), (''ch4'', c)] =
     Inr [(''co2'', a + bucket uid ''co2'' [r]), (''no2'', b + bucket uid ''no2'' [r]),
          (''ch4'', c + bucket uid ''ch4'' [r])]"
proof -
  have sub: "py_subscript (emission_json r) ''user_id'' = Inr (JNum (of_int (er_user_id r)))"
    and ty: "py_get (emission_json r) ''type'' = Inr (JStr (er_type r))"
    by (simp_all add: emission_json_def py_get_def)
  show ?thesis
    by (simp add: totals_step_def sub ty record_amount_kg_json bucket_def)
qed

lemma bucket_Cons: "bucket uid g (r # rs) = bucket uid g [r] + bucket uid g rs"
  by (simp add: bucket_def)

lemma foldE_totals_json:
  "foldE (totals_step fs (JNum (of_int uid))) (map emission_json rs)
         [(''co2'', a), (''no2'', b), (''ch4'', c)] =
     Inr [(''co2'', a + bucket uid ''co2'' rs), (''no2'', b + bucket uid ''no2'' rs),
          (''ch4'', c + bucket uid ''ch4'' rs)]"
proof (induction rs arbitrary: a b c)
  case Nil
  show ?case by (simp add: bucket_def)
next
  case (Cons r rs)
  show ?case
    by (simp add: totals_step_json Cons.IH bucket_Cons [of uid _ r rs] add.assoc)
qed

lemma compute_totals_json:
  "compute_totals_for_user fs (emissions_store rs) (JNum (of_int uid)) = Inr (user_totals uid rs)"
  using foldE_totals_json [of fs uid rs 0 0 0]
  by (simp add: compute_totals_for_user_def emissions_store_def load_emissions_def totals0_def
      user_totals_def)

text \<open>
  C3. On every log of stored records and for every user, \<open>compute_totals_for_user\<close>
  returns the totals with exactly the keys co2, no2, ch4, in which the bucket of a gas is
  the sum, from 0, of the normalized amounts of the records of that user and that gas;
  records of another user or of another type add nothing and raise nothing. The user with
  5 kg and 1 t of co2 and 500 g of ch4 gets 1005, 0 and 0.5, with or without a record of
  10 kg of so2.
\<close>

theorem compute_totals_refines:
  "compute_totals_for_user fs (emissions_store rs) (JNum (of_int uid)) = Inr (user_totals uid rs)
   \<and> map fst (user_totals uid rs) = [''co2'', ''no2'', ''ch4'']
   \<and> user_totals uid [] = [(''co2'', 0), (''no2'', 0), (''ch4'', 0)]
   \<and> compute_totals_for_user fs
        (emissions_store
          [r\<lparr>er_user_id := 7, er_type := ''co2'', er_amount := 5, er_unit := ''kg''\<rparr>,
           r\<lparr>er_user_id := 7, er_type := ''co2'', er_amount := 1, er_unit := ''t''\<rparr>,
           r\<lparr>er_user_id := 7, er_type := ''ch4'', er_amount := 500, er_unit := ''g''\<rparr>])
        (JNum 7) = Inr [(''co2'', 1005), (''no2'', 0), (''ch4'', 1 / 2)]
   \<and> compute_totals_for_user fs
        (emissions_store
          [r\<lparr>er_user_id := 7, er_type := ''co2'', er_amount := 5, er_unit := ''kg''\<rparr>,
           r\<lparr>er_user_id := 7, er_type := ''co2'', er_amount := 1, er_unit := ''t''\<rparr>,
           r\<lparr>er_user_id := 7, er_type := ''ch4'', er_amount := 500, er_unit := ''g''\<rparr>,
           r\<lparr>er_user_id := 7, er_type := ''so2'', er_amount := 10, er_unit := ''kg''\<rparr>])
        (JNum 7) = Inr [(''co2'', 1005), (''no2'', 0), (''ch4'', 1 / 2)]"
proof -
  have seven: "JNum 7 = JNum (of_int 7)" by simp
  show ?thesis
    unfolding seven compute_totals_json
    by (simp add: user_totals_def bucket_def normalize_def lower_char_def)
qed

subsection \<open>Rounding and clamping\<close>

lemma round_half_even_of_int [simp]: "round_half_even (of_int n) = n"
  by (simp add: round_half_even_def)

lemma round_half_even_bounds:
  "\<lfloor>x\<rfloor> \<le> round_half_even x" "round_half_even x \<le> \<lfloor>x\<rfloor> + 1"
  by (simp_all add: round_half_even_def Let_def)

lemma round_half_even_mono:
  assumes "x \<le> y"
  shows "round_half_even x \<le> round_half_even y"
proof (cases "\<lfloor>x\<rfloor> = \<lfloor>y\<rfloor>")
  case True
  with assms show ?thesis
    by (auto simp: round_half_even_def Let_def)
next
  case False
  with assms have "\<lfloor>x\<rfloor> + 1 \<le> \<lfloor>y\<rfloor>"
    using floor_mono [of x y] by linarith
  with round_half_even_bounds(2) [of x] round_half_even_bounds(1) [of y]
  show ?thesis by linarith
qed

lemma py_round_mono: "x \<le> y \<Longrightarrow> py_round x n \<le> py_round y n"
  by (simp add: py_round_def divide_right_mono round_half_even_mono)

lemma py_round_0 [simp]: "py_round 0 n = 0"
  by (simp add: py_round_def round_half_even_def)

lemma py_round_40 [simp]: "py_round 40 1 = 40"
proof -
  have "round_half_even (40 * 10 ^ 1) = round_half_even (of_int 400)" by simp
  then show ?thesis unfolding py_round_def by (simp del: of_int_numeral)
qed

lemma clamp_max_min: "clamp x 0 40 = max 0 (min 40 x)"
  by (simp add: clamp_def max_def min_def)

lemma round_clamp_commute: "py_round (max 0 (min 40 x)) 1 = max 0 (min 40 (py_round x 1))"
proof -
  have r0: "py_round 0 1 = 0" by (rule py_round_0)
  have r40: "py_round 40 1 = 40" by (rule py_round_40)
  consider "x \<le> 0" | "0 < x" "x < 40" | "40 \<le> x" by linarith
  then show ?thesis
  proof cases
    case 1
    then have "py_round x 1 \<le> 0" using py_round_mono [of x 0 1] r0 by simp
    with 1 r0 show ?thesis by (simp add: max_def min_def)
  next
    case 2
    then have "0 \<le> py_round x 1" "py_round x 1 \<le> 40"
      using py_round_mono [of 0 x 1] py_round_mono [of x 40 1] r0 r40 by simp_all
    with 2 show ?thesis by (simp add: max_def min_def)
  next
    case 3
    then have "40 \<le> py_round x 1" using py_round_mono [of 40 x 1] r40 by simp
    with 3 r40 show ?thesis by (simp add: max_def min_def)
  qed
qed

subsection \<open>Loops and the two builders\<close>


lemma foldE_append: "foldE f (xs @ ys) s = bindE (foldE f xs s) (foldE f ys)"
proof (induction xs arbitrary: s)
  case Nil
  show ?case by simp
next
  case (Cons x xs)
  show ?case by (cases "f x s") (simp_all add: Cons.IH)
qed

lemma foldE_invariant:
  assumes "foldE f xs s = Inr s'" and "I s"
    and "\<And>x t t'. x \<in> set xs \<Longrightarrow> I t \<Longrightarrow> f x t = Inr t' \<Longrightarrow> I t'"
  shows "I s'"
  using assms
proof (induction xs arbitrary: s)
  case Nil
  then show ?case by simp
next
  case (Cons x xs)
  from Cons.prems(1) obtain t where t: "f x s = Inr t" and rest: "foldE f xs t = Inr s'"
    by (auto simp: bindE_eq_Inr)
  have "I t" using Cons.prems(3) [of x s t] Cons.prems(2) t by simp
  show ?case
  proof (rule Cons.IH [OF rest \<open>I t\<close>])
    fix y r r' assume "y \<in> set xs" "I r" "f y r = Inr r'"
    then show "I r'" using Cons.prems(3) [of y r r'] by simp
  qed
qed

lemma build_data_falsy: "\<not> truthy data \<Longrightarrow> build_leaderboards_from_data fs data = Inr ([], [])"
  by (simp add: build_leaderboards_from_data_def)

lemma build_data_truthy:
  assumes "build_leaderboards_from_data fs data = Inr (hs, ms)" and "truthy data"
  shows "\<exists>profile nm acc mans.
           py_get_default data ''hospital_profile'' (JObj []) = Inr profile
         \<and> py_get_default profile ''name'' (JStr ''Unknown Hospital'') = Inr nm
         \<and> iter_items (hospital_step fs) data (0, 0, 0) = Inr acc
         \<and> iter_items (manufacturer_step fs) data [] = Inr mans
         \<and> hs = [hospital_entry nm acc]
         \<and> ms = sort_key emissions_kg (map manufacturer_entry mans)"
  using assms
  by (auto simp: build_leaderboards_from_data_def bindE_eq_Inr Let_def)

lemma hospital_entry_subsidy:
  "subsidy_pct (hospital_entry nm acc) = clamp (py_round (reduction_pct (hospital_entry nm acc)) 1) 0 40"
  by (cases acc) (simp add: hospital_entry_def Let_def cost_subsidy_pct_def clamp_max_min)

lemma manufacturer_entry_subsidy:
  "subsidy_pct (manufacturer_entry p) = clamp (py_round (reduction_pct (manufacturer_entry p)) 1) 0 40"
  by (cases p) (simp add: manufacturer_entry_def Let_def cost_subsidy_pct_def clamp_max_min)

lemma relative_entry_fields:
  "emissions_kg (relative_entry m e) = emissions_kg e"
  "name (relative_entry m e) = name e"
  "reduction_pct (relative_entry m e) = (m - emissions_kg e) / m * 100"
  "subsidy_pct (relative_entry m e) = py_round (max 0 (min 40 ((m - emissions_kg e) / m * 100))) 1"
  unfolding relative_entry_def Let_def by simp_all

lemma relative_entry_subsidy:
  "subsidy_pct (relative_entry m e) = clamp (py_round (reduction_pct (relative_entry m e)) 1) 0 40"
  by (simp only: relative_entry_fields clamp_max_min round_clamp_commute)

lemma fold_max_eq: "fold (\<lambda>x m. if m < x then x else m) xs (a::real) = Max (set (a # xs))"
proof -
  have "(\<lambda>x m. if m < x then x else m) = (max :: real \<Rightarrow> real \<Rightarrow> real)"
    by (auto simp: max_def fun_eq_iff)
  then show ?thesis using Max.set_eq_fold [of a xs] by simp
qed

lemma finalize_group_positive:
  assumes "es \<noteq> []" and "\<forall>e\<in>set es. 0 < emissions_kg e"
  shows "finalize_group es =
           sort_key emissions_kg (map (relative_entry (Max (emissions_kg ` set es))) es)"
proof (cases es)
  case Nil
  with assms show ?thesis by simp
next
  case (Cons e es')
  have M: "fold (\<lambda>x m. if m < x then x else m) (map emissions_kg es') (emissions_kg e)
             = Max (emissions_kg ` set (e # es'))"
    using fold_max_eq [of "map emissions_kg es'" "emissions_kg e"] by simp
  have "emissions_kg e \<le> Max (emissions_kg ` set (e # es'))" by simp
  moreover have "0 < emissions_kg e" using assms(2) Cons by simp
  ultimately have nz: "\<not> Max (emissions_kg ` set (e # es')) \<le> 0" by linarith
  show ?thesis
    unfolding Cons by (simp only: finalize_group.simps Let_def M nz if_False)
qed

lemma py_get_JObj: "\<exists>v. py_get (JObj kv) k = Inr v"
  by (simp add: py_get_def split: option.split)

lemma user_step_cases:
  assumes "user_step fs ef u (hs, ms) = Inr (hs', ms')"
  shows "\<exists>ut lowered uid t nm em.
            py_get u ''user_type'' = Inr ut
          \<and> py_lower (py_or ut (JStr '''')) = Inr lowered
          \<and> py_subscript u ''id'' = Inr uid
          \<and> compute_totals_for_user fs ef uid = Inr t
          \<and> py_get u ''name'' = Inr nm
          \<and> py_get u ''email'' = Inr em
          \<and> (let total_kg = totals_get t ''co2'' + totals_get t ''no2'' + totals_get t ''ch4'';
                  e = \<lparr>name = py_or nm em, emissions_kg = total_kg, reduction_pct = 0,
                       subsidy_pct = 0, icon = medal\<rparr>
              in if total_kg \<le> 0 then hs' = hs \<and> ms' = ms
                 else if str_strip lowered = ''manufacturer'' then hs' = hs \<and> ms' = ms @ [e]
                 else hs' = hs @ [e] \<and> ms' = ms)"
proof -
  from assms obtain ut lowered uid t where
    a: "py_get u ''user_type'' = Inr ut" "py_lower (py_or ut (JStr '''')) = Inr lowered"
       "py_subscript u ''id'' = Inr uid" "compute_totals_for_user fs ef uid = Inr t"
    by (auto simp: user_step_def bindE_eq_Inr Let_def)
  from a(1) obtain kv where u: "u = JObj kv"
    by (cases u) (simp_all add: py_get_def)
  obtain nm where nm: "py_get u ''name'' = Inr nm"
    using py_get_JObj [of kv "''name''"] u by auto
  obtain em where em: "py_get u ''email'' = Inr em"
    using py_get_JObj [of kv "''email''"] u by auto
  show ?thesis
    using assms a nm em
    by (auto simp: user_step_def Let_def split: if_splits)
qed

subsection \<open>The logged-emissions builder on the stores the application writes\<close>

lemma user_step_json:
  "user_step fs (emissions_store rs) (user_json u) (hs, ms) =
     Inr (hs @ logged_group False [u] rs, ms @ logged_group True [u] rs)"
proof -
  have g: "py_get (user_json u) ''user_type'' = Inr (JStr (ur_user_type u))"
          "py_get (user_json u) ''name'' = Inr (JStr (ur_name u))"
          "py_get (user_json u) ''email'' = Inr (JStr (ur_email u))"
          "py_subscript (user_json u) ''id'' = Inr (JNum (of_int (ur_id u)))"
    by (simp_all add: user_json_def py_get_def)
  have t: "totals_get (user_totals (ur_id u) rs) ''co2'' + totals_get (user_totals (ur_id u) rs) ''no2''
           + totals_get (user_totals (ur_id u) rs) ''ch4'' = total_kg (ur_id u) rs"
    by (simp add: totals_get_def user_totals_def total_kg_def)
  have n: "py_or (JStr (ur_name u)) (JStr (ur_email u)) = display_name u"
    by (simp add: py_or_def display_name_def)
  show ?thesis
    unfolding user_step_def
    by (simp add: g compute_totals_json t n Let_def logged_group_def logged_entry_def
        is_manufacturer_def)
qed

lemma logged_group_Cons:
  "logged_group m (u # us) rs = logged_group m [u] rs @ logged_group m us rs"
  by (simp add: logged_group_def)

lemma user_loop_json:
  "foldE (user_step fs (emissions_store rs)) (map user_json us) (hs, ms) =
     Inr (hs @ logged_group False us rs, ms @ logged_group True us rs)"
proof (induction us arbitrary: hs ms)
  case Nil
  show ?case by (simp add: logged_group_def)
next
  case (Cons u us)
  show ?case
    by (simp add: user_step_json Cons.IH logged_group_Cons [of _ u us])
qed

lemma build_emissions_json:
  "build_leaderboards_from_emissions fs (users_store us) (emissions_store rs) =
     Inr (finalize_group (logged_group False us rs), finalize_group (logged_group True us rs))"
  using user_loop_json [of fs rs us "[]" "[]"]
  by (simp add: build_leaderboards_from_emissions_def users_store_def load_users_def)

subsection \<open>Entries of the logged-emissions builder\<close>

lemma user_loop_fresh:
  assumes "foldE (user_step fs ef) us (hs, ms) = Inr (hs', ms')"
    and "\<forall>e\<in>set hs \<union> set ms. 0 < emissions_kg e \<and> reduction_pct e = 0 \<and> subsidy_pct e = 0"
  shows "\<forall>e\<in>set hs' \<union> set ms'. 0 < emissions_kg e \<and> reduction_pct e = 0 \<and> subsidy_pct e = 0"
proof -
  let ?I = "\<lambda>p. \<forall>e\<in>set (fst p) \<union> set (snd p).
                  0 < emissions_kg e \<and> reduction_pct e = 0 \<and> subsidy_pct e = 0"
  have "?I (hs', ms')"
  proof (rule foldE_invariant [OF assms(1), where I = ?I])
    show "?I (hs, ms)" using assms(2) by simp
  next
    fix u p p' assume "u \<in> set us" and I: "?I p" and step: "user_step fs ef u p = Inr p'"
    obtain a b a' b' where p: "p = (a, b)" "p' = (a', b')" by (cases p, cases p') auto
    from user_step_cases [OF step [unfolded p]] I show "?I p'"
      unfolding p by (auto simp: Let_def split: if_splits)
  qed
  then show ?thesis by simp
qed

lemma user_loop_origin:
  assumes "foldE (user_step fs ef) us (hs, ms) = Inr (hs', ms')"
    and "e \<in> set hs' \<union> set ms'" and "e \<notin> set hs \<union> set ms"
  shows "\<exists>u\<in>set us. \<exists>uid t nm em.
           py_subscript u ''id'' = Inr uid \<and> compute_totals_for_user fs ef uid = Inr t
         \<and> emissions_kg e = totals_get t ''co2'' + totals_get t ''no2'' + totals_get t ''ch4''
         \<and> py_get u ''name'' = Inr nm \<and> py_get u ''email'' = Inr em \<and> name e = py_or nm em"
  using assms
proof (induction us arbitrary: hs ms)
  case Nil
  then show ?case by simp
next
  case (Cons u us)
  from Cons.prems(1) obtain p where step: "user_step fs ef u (hs, ms) = Inr p"
    and rest: "foldE (user_step fs ef) us p = Inr (hs', ms')"
    by (auto simp: bindE_eq_Inr)
  obtain a b where p: "p = (a, b)" by (cases p) auto
  show ?case
  proof (cases "e \<in> set a \<union> set b")
    case True
    with user_step_cases [OF step [unfolded p]] Cons.prems(3)
    have "\<exists>uid t nm em.
           py_subscript u ''id'' = Inr uid \<and> compute_totals_for_user fs ef uid = Inr t
         \<and> emissions_kg e = totals_get t ''co2'' + totals_get t ''no2'' + totals_get t ''ch4''
         \<and> py_get u ''name'' = Inr nm \<and> py_get u ''email'' = Inr em \<and> name e = py_or nm em"
      by (auto simp: Let_def split: if_splits)
    then show ?thesis by auto
  next
    case False
    from Cons.IH [OF rest [unfolded p] Cons.prems(2) False] show ?thesis by auto
  qed
qed

lemma build_emissions_cases:
  assumes "build_leaderboards_from_emissions fs uf ef = Inr (hs, ms)"
  shows "\<exists>all us hs0 ms0.
           py_get_default (load_users uf) ''users'' (JArr []) = Inr all
         \<and> py_iter all = Inr us
         \<and> foldE (user_step fs ef) us ([], []) = Inr (hs0, ms0)
         \<and> hs = finalize_group hs0 \<and> ms = finalize_group ms0"
  using assms
  by (auto simp: build_leaderboards_from_emissions_def bindE_eq_Inr)

lemma finalize_group_cases:
  assumes "\<forall>e\<in>set es. 0 < emissions_kg e"
  shows "(es = [] \<and> finalize_group es = [])
       \<or> (es \<noteq> [] \<and> finalize_group es =
             sort_key emissions_kg (map (relative_entry (Max (emissions_kg ` set es))) es))"
  using finalize_group_positive [OF _ assms] by (cases es) auto

lemma finalize_group_set:
  assumes "\<forall>e\<in>set es. 0 < emissions_kg e"
  shows "set (finalize_group es) = relative_entry (Max (emissions_kg ` set es)) ` set es"
  using finalize_group_cases [OF assms] by auto



subsection \<open>The example stores\<close>

lemma py_round_of_int: "py_round (of_int n) k = of_int n"
proof -
  have "of_int n * (10::real) ^ k = of_int (n * 10 ^ k)" by simp
  then have "round_half_even (of_int n * 10 ^ k) = n * 10 ^ k"
    by (simp only: round_half_even_of_int)
  then show ?thesis by (simp add: py_round_def)
qed

lemma py_round_numeral [simp]: "py_round (numeral w) k = numeral w"
  using py_round_of_int [of "numeral w" k] by simp

lemma bindE_Inr_right [simp]: "bindE m Inr = m"
  by (cases m) simp_all

lemma foldE_Nil_fun [simp]: "foldE f [] = Inr"
  by (rule ext) simp

lemma item_numbers_example:
  "item_numbers fs (example_item t c a sups) = Inr (t, c, a)"
  by (simp add: item_numbers_def example_item_def)

lemma iter_items_example:
  "iter_items body example_dataset s =
     foldE body [example_item 3 1000 800 [''Acme'', ''Bolt''], example_item 1 1000 800 [''Acme'']] s"
  by (simp add: iter_items_def example_dataset_def)

lemma manufacturer_step_example:
  "manufacturer_step fs (example_item t c a sups) ms = foldE (supplier_step (t, c, a)) (map JStr sups) ms"
  by (simp add: manufacturer_step_def item_numbers_example) (simp add: example_item_def)

lemma py_eq_str [simp]: "py_eq (JStr s) (JStr t) = (s = t)"
  by (simp add: py_eq_def)

lemma example_dataset_result:
  "build_leaderboards_from_data fs example_dataset =
     Inr ([example_entry ''City Hospital'' 4000 20 20],
          [example_entry ''Bolt'' 3000 20 20, example_entry ''Acme'' 4000 20 20])"
proof -
  have t: "truthy example_dataset" by (simp add: example_dataset_def)
  have n: "bindE (py_get_default example_dataset ''hospital_profile'' (JObj []))
             (\<lambda>profile. py_get_default profile ''name'' (JStr ''Unknown Hospital''))
           = Inr (JStr ''City Hospital'')"
    by (simp add: example_dataset_def)
  have h: "iter_items (hospital_step fs) example_dataset (0, 0, 0) = Inr (4, 2000, 1600)"
    by (simp add: iter_items_example hospital_step_def item_numbers_example)
  have m: "iter_items (manufacturer_step fs) example_dataset [] =
             Inr [(JStr ''Acme'', \<lparr>tonnes = 4, cost_cur = 2000, cost_alt = 1600\<rparr>),
                  (JStr ''Bolt'', \<lparr>tonnes = 3, cost_cur = 1000, cost_alt = 800\<rparr>)]"
    by (simp add: iter_items_example manufacturer_step_example supplier_step_def)
  have r: "cost_reduction_pct 2000 1600 = 20" "cost_reduction_pct 1000 800 = 20"
          "cost_subsidy_pct 20 = 20"
    by (simp_all add: cost_reduction_pct_def cost_subsidy_pct_def)
  have e: "hospital_entry (JStr ''City Hospital'') (4, 2000, 1600) = example_entry ''City Hospital'' 4000 20 20"
          "manufacturer_entry (JStr ''Acme'', \<lparr>tonnes = 4, cost_cur = 2000, cost_alt = 1600\<rparr>)
             = example_entry ''Acme'' 4000 20 20"
          "manufacturer_entry (JStr ''Bolt'', \<lparr>tonnes = 3, cost_cur = 1000, cost_alt = 800\<rparr>)
             = example_entry ''Bolt'' 3000 20 20"
    by (simp_all add: hospital_entry_def manufacturer_entry_def r example_entry_def)
  have k: "emissions_kg (example_entry nm kg red sub) = kg" for nm kg red sub
    by (simp add: example_entry_def)
  from n obtain profile where
    p: "py_get_default example_dataset ''hospital_profile'' (JObj []) = Inr profile"
       "py_get_default profile ''name'' (JStr ''Unknown Hospital'') = Inr (JStr ''City Hospital'')"
    by (auto simp: bindE_eq_Inr)
  show ?thesis
    unfolding build_leaderboards_from_data_def
    by (simp add: t p h m e k Let_def)
qed

lemma example_emissions_result:
  "build_leaderboards_from_emissions fs (users_store example_users) (emissions_store example_emissions) =
     Inr ([example_entry ''Alpha'' 100 50 40, example_entry ''b@x.org'' 200 0 0],
          [example_entry ''Gamma'' 3000 0 0])"
proof -
  have t: "total_kg 1 example_emissions = 100" "total_kg 2 example_emissions = 200"
          "total_kg 3 example_emissions = 3000" "total_kg 4 example_emissions = 0"
    by (simp_all add: total_kg_def bucket_def example_emissions_def example_emission_def
        normalize_def lower_char_def)
  have m: "\<not> is_manufacturer (example_user 1 ''Alpha'' ''a@x.org'' ''hospital'')"
          "\<not> is_manufacturer (example_user 2 '''' ''b@x.org'' ''Hospital '')"
          "is_manufacturer (example_user 3 ''Gamma'' ''c@x.org'' ''manufacturer'')"
    by (simp_all add: is_manufacturer_def example_user_def str_strip_def is_space_def lower_char_def)
  have i: "ur_id (example_user i nm em ty) = i" for i nm em ty
    by (simp add: example_user_def)
  have g: "logged_group False example_users example_emissions =
             [example_entry ''Alpha'' 100 0 0, example_entry ''b@x.org'' 200 0 0]"
          "logged_group True example_users example_emissions = [example_entry ''Gamma'' 3000 0 0]"
    by (simp_all add: logged_group_def example_users_def i t m logged_entry_def example_entry_def
        display_name_def) (simp_all add: example_user_def)
  have f: "finalize_group [example_entry ''Alpha'' 100 0 0, example_entry ''b@x.org'' 200 0 0]
             = [example_entry ''Alpha'' 100 50 40, example_entry ''b@x.org'' 200 0 0]"
          "finalize_group [example_entry ''Gamma'' 3000 0 0] = [example_entry ''Gamma'' 3000 0 0]"
    by (simp_all add: example_entry_def relative_entry_def Let_def)
  show ?thesis by (simp only: build_emissions_json g f)
qed

subsection \<open>The subsidy\<close>

lemma clamp_range: "0 \<le> clamp x 0 40 \<and> clamp x 0 40 \<le> 40"
  by (simp add: clamp_def)

lemma build_data_subsidy:
  assumes "build_leaderboards_from_data fs data = Inr (hs, ms)" and "e \<in> set hs \<union> set ms"
  shows "subsidy_pct e = clamp (py_round (reduction_pct e) 1) 0 40"
proof (cases "truthy data")
  case False
  with assms show ?thesis by (simp add: build_data_falsy)
next
  case True
  from build_data_truthy [OF assms(1) True] assms(2) show ?thesis
    by (auto simp: hospital_entry_subsidy manufacturer_entry_subsidy)
qed

lemma build_emissions_fresh:
  assumes "build_leaderboards_from_emissions fs uf ef = Inr (hs, ms)"
  shows "\<exists>hs0 ms0. hs = finalize_group hs0 \<and> ms = finalize_group ms0
           \<and> (\<forall>e\<in>set hs0 \<union> set ms0. 0 < emissions_kg e \<and> reduction_pct e = 0 \<and> subsidy_pct e = 0)"
proof -
  from build_emissions_cases [OF assms] obtain us hs0 ms0 where
    loop: "foldE (user_step fs ef) us ([], []) = Inr (hs0, ms0)"
    and fin: "hs = finalize_group hs0" "ms = finalize_group ms0" by blast
  from user_loop_fresh [OF loop] fin show ?thesis by auto
qed

lemma build_emissions_subsidy:
  assumes "build_leaderboards_from_emissions fs uf ef = Inr (hs, ms)" and "e \<in> set hs \<union> set ms"
  shows "subsidy_pct e = clamp (py_round (reduction_pct e) 1) 0 40"
proof -
  from build_emissions_fresh [OF assms(1)] obtain hs0 ms0 where
    fin: "hs = finalize_group hs0" "ms = finalize_group ms0"
    and pos: "\<forall>e\<in>set hs0. 0 < emissions_kg e" "\<forall>e\<in>set ms0. 0 < emissions_kg e" by auto
  from assms(2) fin finalize_group_set [OF pos(1)] finalize_group_set [OF pos(2)]
  obtain m e0 where "e = relative_entry m e0" by auto
  then show ?thesis by (simp only: relative_entry_subsidy)
qed

lemma clamp_examples: "clamp (py_round 1000 1) 0 40 = 40" "clamp (py_round (- 50) 1) 0 40 = 0"
proof -
  have "py_round (- 50) 1 = - 50" using py_round_of_int [of "- 50" 1] by simp
  then show "clamp (py_round (- 50) 1) 0 40 = 0" by (simp add: clamp_def)
  show "clamp (py_round 1000 1) 0 40 = 40" by (simp add: clamp_def)
qed

text \<open>
  C1. Every entry returned by the dataset builder or by the logged-emissions builder has
  \<open>subsidy_pct = clamp(round(reduction_pct, 1), 0, 40)\<close>, hence within 0 and 40; a
  reduction of 1000 gives 40 and a reduction of -50 gives 0.
\<close>

theorem subsidy_clamped:
  "(build_leaderboards_from_data fs data = Inr (hs, ms) \<longrightarrow>
      (\<forall>e\<in>set hs \<union> set ms.
         subsidy_pct e = clamp (py_round (reduction_pct e) 1) 0 40
         \<and> 0 \<le> subsidy_pct e \<and> subsidy_pct e \<le> 40))
   \<and> (build_leaderboards_from_emissions fs uf ef = Inr (hs', ms') \<longrightarrow>
      (\<forall>e\<in>set hs' \<union> set ms'.
         subsidy_pct e = clamp (py_round (reduction_pct e) 1) 0 40
         \<and> 0 \<le> subsidy_pct e \<and> subsidy_pct e \<le> 40))
   \<and> clamp (py_round 1000 1) 0 40 = 40
   \<and> clamp (py_round (- 50) 1) 0 40 = 0"
  using build_data_subsidy [of fs data hs ms] build_emissions_subsidy [of fs uf ef hs' ms']
    clamp_range clamp_examples
  by (intro conjI impI ballI) simp_all

theorem subsidy_clamped_witness:
  "build_leaderboards_from_data (\<lambda>s. None) example_dataset =
     Inr ([example_entry ''City Hospital'' 4000 20 20],
          [example_entry ''Bolt'' 3000 20 20, example_entry ''Acme'' 4000 20 20])
   \<and> list_all (\<lambda>e. subsidy_pct e = clamp (py_round (reduction_pct e) 1) 0 40
                     \<and> 0 \<le> subsidy_pct e \<and> subsidy_pct e \<le> 40)
        ([example_entry ''City Hospital'' 4000 20 20]
         @ [example_entry ''Bolt'' 3000 20 20, example_entry ''Acme'' 4000 20 20])
   \<and> build_leaderboards_from_emissions (\<lambda>s. None) (users_store example_users)
        (emissions_store example_emissions) =
     Inr ([example_entry ''Alpha'' 100 50 40, example_entry ''b@x.org'' 200 0 0],
          [example_entry ''Gamma'' 3000 0 0])
   \<and> list_all (\<lambda>e. subsidy_pct e = clamp (py_round (reduction_pct e) 1) 0 40
                     \<and> 0 \<le> subsidy_pct e \<and> subsidy_pct e \<le> 40)
        ([example_entry ''Alpha'' 100 50 40, example_entry ''b@x.org'' 200 0 0]
         @ [example_entry ''Gamma'' 3000 0 0])"
  using subsidy_clamped [of "\<lambda>s. None" example_dataset
      "[example_entry ''City Hospital'' 4000 20 20]"
      "[example_entry ''Bolt'' 3000 20 20, example_entry ''Acme'' 4000 20 20]"
      "users_store example_users" "emissions_store example_emissions"
      "[example_entry ''Alpha'' 100 50 40, example_entry ''b@x.org'' 200 0 0]"
      "[example_entry ''Gamma'' 3000 0 0]"]
    example_dataset_result [of "\<lambda>s. None"] example_emissions_result [of "\<lambda>s. None"]
  unfolding list_all_iff set_append by blast

subsection \<open>The relative reduction and the order of the lists\<close>












subsection \<open>Who gets an entry, and under which name\<close>

lemma build_emissions_origin:
  assumes "build_leaderboards_from_emissions fs uf ef = Inr (hs, ms)" and "e \<in> set hs \<union> set ms"
  shows "\<exists>all us. py_get_default (load_users uf) ''users'' (JArr []) = Inr all \<and> py_iter all = Inr us
           \<and> (\<exists>u\<in>set us. \<exists>uid t nm em.
                 py_subscript u ''id'' = Inr uid \<and> compute_totals_for_user fs ef uid = Inr t
               \<and> emissions_kg e = totals_get t ''co2'' + totals_get t ''no2'' + totals_get t ''ch4''
               \<and> 0 < emissions_kg e
               \<and> py_get u ''name'' = Inr nm \<and> py_get u ''email'' = Inr em \<and> name e = py_or nm em)"
proof -
  from build_emissions_cases [OF assms(1)] obtain all us hs0 ms0 where
    a: "py_get_default (load_users uf) ''users'' (JArr []) = Inr all" "py_iter all = Inr us"
    and loop: "foldE (user_step fs ef) us ([], []) = Inr (hs0, ms0)"
    and fin: "hs = finalize_group hs0" "ms = finalize_group ms0" by blast
  from user_loop_fresh [OF loop]
  have pos: "\<forall>e\<in>set hs0. 0 < emissions_kg e" "\<forall>e\<in>set ms0. 0 < emissions_kg e" by auto
  from assms(2) fin finalize_group_set [OF pos(1)] finalize_group_set [OF pos(2)]
  obtain m e0 where e0: "e0 \<in> set hs0 \<union> set ms0" and e: "e = relative_entry m e0" by auto
  have same: "name e = name e0" "emissions_kg e = emissions_kg e0"
    unfolding e by (simp_all only: relative_entry_fields)
  have p: "0 < emissions_kg e0" using e0 pos by auto
  from user_loop_origin [OF loop e0] obtain u uid t nm em where
    u: "u \<in> set us" "py_subscript u ''id'' = Inr uid" "compute_totals_for_user fs ef uid = Inr t"
       "py_get u ''name'' = Inr nm" "py_get u ''email'' = Inr em"
    and k: "emissions_kg e0 = totals_get t ''co2'' + totals_get t ''no2'' + totals_get t ''ch4''"
    and n: "name e0 = py_or nm em"
    by auto
  have k': "emissions_kg e = totals_get t ''co2'' + totals_get t ''no2'' + totals_get t ''ch4''"
    using k same(2) by simp
  have n': "name e = py_or nm em" using n same(1) by simp
  have p': "0 < emissions_kg e" using p same(2) by simp
  from a u k' n' p' show ?thesis by blast
qed

lemma build_emissions_users:
  "build_leaderboards_from_emissions fs (Content (JObj [(''users'', JArr us)])) ef =
     bindE (foldE (user_step fs ef) us ([], []))
       (\<lambda>(hospital_entries, manufacturer_entries).
          Inr (finalize_group hospital_entries, finalize_group manufacturer_entries))"
  by (simp add: build_leaderboards_from_emissions_def load_users_def)

lemma user_step_skip:
  assumes "user_step fs ef u p = Inr p'" and "py_subscript u ''id'' = Inr uid"
    and "compute_totals_for_user fs ef uid = Inr t"
    and "totals_get t ''co2'' + totals_get t ''no2'' + totals_get t ''ch4'' \<le> 0"
  shows "p' = p"
proof -
  obtain a b a' b' where p: "p = (a, b)" "p' = (a', b')" by (cases p, cases p') auto
  from user_step_cases [OF assms(1) [unfolded p]] assms(2-4) show ?thesis
    unfolding p by (auto simp: Let_def)
qed

lemma user_loop_skip:
  assumes "foldE (user_step fs ef) (us1 @ u # us2) s = Inr r" and "py_subscript u ''id'' = Inr uid"
    and "compute_totals_for_user fs ef uid = Inr t"
    and "totals_get t ''co2'' + totals_get t ''no2'' + totals_get t ''ch4'' \<le> 0"
  shows "foldE (user_step fs ef) (us1 @ us2) s = Inr r"
proof -
  from assms(1) obtain s1 s2 where
    s1: "foldE (user_step fs ef) us1 s = Inr s1" and s2: "user_step fs ef u s1 = Inr s2"
    and r: "foldE (user_step fs ef) us2 s2 = Inr r"
    by (auto simp: foldE_append bindE_eq_Inr)
  from user_step_skip [OF s2 assms(2-4)] have "s2 = s1" .
  with s1 r show ?thesis by (simp add: foldE_append)
qed

lemma build_emissions_skip:
  assumes "build_leaderboards_from_emissions fs (Content (JObj [(''users'', JArr (us1 @ u # us2))])) ef = Inr r"
    and "py_subscript u ''id'' = Inr uid" and "compute_totals_for_user fs ef uid = Inr t"
    and "totals_get t ''co2'' + totals_get t ''no2'' + totals_get t ''ch4'' \<le> 0"
  shows "build_leaderboards_from_emissions fs (Content (JObj [(''users'', JArr (us1 @ us2))])) ef = Inr r"
proof -
  from assms(1) obtain p where
    loop: "foldE (user_step fs ef) (us1 @ u # us2) ([], []) = Inr p"
    and fin: "(\<lambda>(h, m). Inr (finalize_group h, finalize_group m)) p = (Inr r :: py_error + entry list \<times> entry list)"
    unfolding build_emissions_users by (auto simp: bindE_eq_Inr)
  from user_loop_skip [OF loop assms(2-4)] fin show ?thesis
    unfolding build_emissions_users by simp
qed

lemma logged_group_filter:
  "logged_group m (filter (\<lambda>u. 0 < total_kg (ur_id u) rs) us) rs = logged_group m us rs"
  by (simp add: logged_group_def conj_commute cong: conj_cong)

lemma build_emissions_positive:
  assumes "build_leaderboards_from_emissions fs uf ef = Inr (hs, ms)" and "e \<in> set hs \<union> set ms"
  shows "0 < emissions_kg e"
  using build_emissions_origin [OF assms] by auto

text \<open>
  C5. A user whose total \<open>co2 + no2 + ch4\<close> is at most 0 is excluded from the output of
  the logged-emissions builder: the builder returns what it returns on the registry
  without that user, every entry it returns has a positive \<open>emissions_kg\<close>, and on the
  stores the application writes it returns what it returns on the users with a positive
  total.
\<close>

theorem nonpositive_total_excluded:
  "(build_leaderboards_from_emissions fs (Content (JObj [(''users'', JArr (us1 @ u # us2))])) ef = Inr r
    \<and> py_subscript u ''id'' = Inr uid \<and> compute_totals_for_user fs ef uid = Inr t
    \<and> totals_get t ''co2'' + totals_get t ''no2'' + totals_get t ''ch4'' \<le> 0 \<longrightarrow>
      build_leaderboards_from_emissions fs (Content (JObj [(''users'', JArr (us1 @ us2))])) ef = Inr r)
   \<and> (build_leaderboards_from_emissions fs uf ef' = Inr (hs, ms) \<longrightarrow>
        (\<forall>e\<in>set hs \<union> set ms. 0 < emissions_kg e))
   \<and> build_leaderboards_from_emissions fs (users_store us) (emissions_store rs) =
       build_leaderboards_from_emissions fs
         (users_store (filter (\<lambda>u. 0 < total_kg (ur_id u) rs) us)) (emissions_store rs)"
  using build_emissions_skip [of fs us1 u us2 ef r uid t]
    build_emissions_positive [of fs uf ef' hs ms]
  by (auto simp: build_emissions_json logged_group_filter)

theorem nonpositive_total_excluded_witness:
  "build_leaderboards_from_emissions (\<lambda>s. None)
     (Content (JObj [(''users'', JArr (map user_json
         [example_user 1 ''Alpha'' ''a@x.org'' ''hospital'',
          example_user 2 '''' ''b@x.org'' ''Hospital '',
          example_user 3 ''Gamma'' ''c@x.org'' ''manufacturer'']
         @ user_json (example_user 4 ''Delta'' ''d@x.org'' ''pending'') # []))]))
     (emissions_store example_emissions) =
     Inr ([example_entry ''Alpha'' 100 50 40, example_entry ''b@x.org'' 200 0 0],
          [example_entry ''Gamma'' 3000 0 0])
   \<and> py_subscript (user_json (example_user 4 ''Delta'' ''d@x.org'' ''pending'')) ''id'' = Inr (JNum 4)
   \<and> compute_totals_for_user (\<lambda>s. None) (emissions_store example_emissions) (JNum 4) =
       Inr [(''co2'', 0), (''no2'', 0), (''ch4'', 0)]
   \<and> totals_get [(''co2'', 0), (''no2'', 0), (''ch4'', 0)] ''co2''
       + totals_get [(''co2'', 0), (''no2'', 0), (''ch4'', 0)] ''no2''
       + totals_get [(''co2'', 0), (''no2'', 0), (''ch4'', 0)] ''ch4'' \<le> 0
   \<and> build_leaderboards_from_emissions (\<lambda>s. None)
     (Content (JObj [(''users'', JArr (map user_json
         [example_user 1 ''Alpha'' ''a@x.org'' ''hospital'',
          example_user 2 '''' ''b@x.org'' ''Hospital '',
          example_user 3 ''Gamma'' ''c@x.org'' ''manufacturer''] @ []))]))
     (emissions_store example_emissions) =
     Inr ([example_entry ''Alpha'' 100 50 40, example_entry ''b@x.org'' 200 0 0],
          [example_entry ''Gamma'' 3000 0 0])
   \<and> list_all (\<lambda>e. 0 < emissions_kg e)
        ([example_entry ''Alpha'' 100 50 40, example_entry ''b@x.org'' 200 0 0]
         @ [example_entry ''Gamma'' 3000 0 0])"
proof -
  let ?u4 = "example_user 4 ''Delta'' ''d@x.org'' ''pending''"
  let ?us3 = "[example_user 1 ''Alpha'' ''a@x.org'' ''hospital'',
               example_user 2 '''' ''b@x.org'' ''Hospital '',
               example_user 3 ''Gamma'' ''c@x.org'' ''manufacturer'']"
  have s: "Content (JObj [(''users'', JArr (map user_json ?us3 @ user_json ?u4 # []))])
             = users_store example_users"
    by (simp add: users_store_def example_users_def)
  have b: "build_leaderboards_from_emissions (\<lambda>s. None)
             (Content (JObj [(''users'', JArr (map user_json ?us3 @ user_json ?u4 # []))]))
             (emissions_store example_emissions) =
           Inr ([example_entry ''Alpha'' 100 50 40, example_entry ''b@x.org'' 200 0 0],
                [example_entry ''Gamma'' 3000 0 0])"
    unfolding s by (rule example_emissions_result)
  have i: "py_subscript (user_json ?u4) ''id'' = Inr (JNum 4)"
    by (simp add: user_json_def example_user_def)
  have "user_totals 4 example_emissions = [(''co2'', 0), (''no2'', 0), (''ch4'', 0)]"
    by (simp add: user_totals_def bucket_def example_emissions_def example_emission_def)
  with compute_totals_json [of "\<lambda>s. None" example_emissions 4]
  have c: "compute_totals_for_user (\<lambda>s. None) (emissions_store example_emissions) (JNum 4) =
             Inr [(''co2'', 0), (''no2'', 0), (''ch4'', 0)]" by simp
  have z: "totals_get [(''co2'', 0), (''no2'', 0), (''ch4'', 0)] ''co2''
       + totals_get [(''co2'', 0), (''no2'', 0), (''ch4'', 0)] ''no2''
       + totals_get [(''co2'', 0), (''no2'', 0), (''ch4'', 0)] ''ch4'' \<le> 0"
    by (simp add: totals_get_def)
  from nonpositive_total_excluded [of "\<lambda>s. None" "map user_json ?us3" "user_json ?u4" "[]"
      "emissions_store example_emissions"
      "([example_entry ''Alpha'' 100 50 40, example_entry ''b@x.org'' 200 0 0],
        [example_entry ''Gamma'' 3000 0 0])" "JNum 4" "[(''co2'', 0), (''no2'', 0), (''ch4'', 0)]"
      "Content (JObj [(''users'', JArr (map user_json ?us3 @ user_json ?u4 # []))])"
      "emissions_store example_emissions"
      "[example_entry ''Alpha'' 100 50 40, example_entry ''b@x.org'' 200 0 0]"
      "[example_entry ''Gamma'' 3000 0 0]"] b i c z
  show ?thesis unfolding list_all_iff set_append by blast
qed




subsection \<open>The flattened items and the hospital aggregate\<close>







subsection \<open>The dataset builder returns on a dataset of the specified shape\<close>


lemma opt_field_empty [simp]: "opt_field P k (JObj [])"
  by (simp add: opt_field_def)

lemma dict_of_empty [simp]: "dict_of P (JObj [])"
  by (simp add: dict_of_def)













subsection \<open>The hospital entry\<close>


















subsection \<open>Non-negative emissions\<close>








subsection \<open>Missing files and missing fields\<close>














end
